theory Spec2Isabelle
  imports Complex_Main
begin

section \<open>JavaScript numbers\<close>

text \<open>
  A JavaScript \<open>number\<close> is modelled as a real number, one of the two infinities, or
  NaN. Finite arithmetic is exact: rounding, overflow to an infinity and the sign of zero
  are not modelled, and \<open>Math.PI\<close> is the real number \<open>pi\<close>. What is modelled is
  the part of IEEE 754 that the simulator's guards and clamps react to: NaN is contagious,
  every comparison with NaN is false, \<open>Math.acos\<close> and \<open>Math.asin\<close> return NaN
  outside \<open>[-1, 1]\<close>, \<open>Math.max\<close> and \<open>Math.min\<close> return NaN as soon as one
  argument is NaN, and the trigonometric functions return NaN at an infinity.
\<close>

datatype jsnum = NaN | PInf | NInf | Fin real

fun jneg :: "jsnum \<Rightarrow> jsnum" where
  "jneg NaN = NaN"
| "jneg PInf = NInf"
| "jneg NInf = PInf"
| "jneg (Fin a) = Fin (- a)"

fun jadd :: "jsnum \<Rightarrow> jsnum \<Rightarrow> jsnum" where
  "jadd (Fin a) (Fin b) = Fin (a + b)"
| "jadd NaN _ = NaN"
| "jadd _ NaN = NaN"
| "jadd PInf NInf = NaN"
| "jadd NInf PInf = NaN"
| "jadd PInf _ = PInf"
| "jadd _ PInf = PInf"
| "jadd NInf _ = NInf"
| "jadd _ NInf = NInf"

definition jsub :: "jsnum \<Rightarrow> jsnum \<Rightarrow> jsnum" where
  "jsub a b = jadd a (jneg b)"

text \<open>The infinity that has the sign of a nonzero real, NaN for zero (\<open>Infinity * 0\<close>).\<close>

definition signedInf :: "real \<Rightarrow> jsnum" where
  "signedInf r = (if r = 0 then NaN else if 0 < r then PInf else NInf)"

fun jmul :: "jsnum \<Rightarrow> jsnum \<Rightarrow> jsnum" where
  "jmul (Fin a) (Fin b) = Fin (a * b)"
| "jmul NaN _ = NaN"
| "jmul _ NaN = NaN"
| "jmul PInf (Fin b) = signedInf b"
| "jmul NInf (Fin b) = signedInf (- b)"
| "jmul (Fin a) PInf = signedInf a"
| "jmul (Fin a) NInf = signedInf (- a)"
| "jmul PInf PInf = PInf"
| "jmul NInf NInf = PInf"
| "jmul PInf NInf = NInf"
| "jmul NInf PInf = NInf"

text \<open>
  Division. A finite nonzero number divided by zero is an infinity; the model has one zero
  only, taken as \<open>+0\<close>. Every divisor in the simulator is a nonzero constant or is
  guarded, so this case is never reached there.
\<close>

fun jdiv :: "jsnum \<Rightarrow> jsnum \<Rightarrow> jsnum" where
  "jdiv (Fin a) (Fin b) = (if b = 0 then signedInf a else Fin (a / b))"
| "jdiv NaN _ = NaN"
| "jdiv _ NaN = NaN"
| "jdiv (Fin a) _ = Fin 0"
| "jdiv PInf (Fin b) = (if 0 \<le> b then PInf else NInf)"
| "jdiv NInf (Fin b) = (if 0 \<le> b then NInf else PInf)"
| "jdiv _ _ = NaN"

text \<open>
  The remainder operator \<open>%\<close> truncates the quotient towards zero, so the result has the
  sign of the dividend. It is NaN for an infinite dividend and for a zero divisor.
\<close>

definition truncReal :: "real \<Rightarrow> int" where
  "truncReal r = (if 0 \<le> r then \<lfloor>r\<rfloor> else \<lceil>r\<rceil>)"

fun jmod :: "jsnum \<Rightarrow> jsnum \<Rightarrow> jsnum" where
  "jmod (Fin a) (Fin b) = (if b = 0 then NaN else Fin (a - b * of_int (truncReal (a / b))))"
| "jmod (Fin a) PInf = Fin a"
| "jmod (Fin a) NInf = Fin a"
| "jmod _ _ = NaN"

fun jfloor :: "jsnum \<Rightarrow> jsnum" where
  "jfloor (Fin a) = Fin (of_int \<lfloor>a\<rfloor>)"
| "jfloor x = x"

fun jabs :: "jsnum \<Rightarrow> jsnum" where
  "jabs (Fin a) = Fin \<bar>a\<bar>"
| "jabs NaN = NaN"
| "jabs _ = PInf"

fun jsqrt :: "jsnum \<Rightarrow> jsnum" where
  "jsqrt (Fin a) = (if a < 0 then NaN else Fin (sqrt a))"
| "jsqrt PInf = PInf"
| "jsqrt _ = NaN"

fun jsin :: "jsnum \<Rightarrow> jsnum" where
  "jsin (Fin a) = Fin (sin a)"
| "jsin _ = NaN"

fun jcos :: "jsnum \<Rightarrow> jsnum" where
  "jcos (Fin a) = Fin (cos a)"
| "jcos _ = NaN"

text \<open>\<open>Math.tan\<close> of a finite number is finite: no floating-point number is a pole.\<close>

fun jtan :: "jsnum \<Rightarrow> jsnum" where
  "jtan (Fin a) = Fin (tan a)"
| "jtan _ = NaN"

fun jasin :: "jsnum \<Rightarrow> jsnum" where
  "jasin (Fin a) = (if - 1 \<le> a \<and> a \<le> 1 then Fin (arcsin a) else NaN)"
| "jasin _ = NaN"

fun jacos :: "jsnum \<Rightarrow> jsnum" where
  "jacos (Fin a) = (if - 1 \<le> a \<and> a \<le> 1 then Fin (arccos a) else NaN)"
| "jacos _ = NaN"

text \<open>The comparison \<open><\<close>; it is false as soon as one side is NaN.\<close>

fun jlt :: "jsnum \<Rightarrow> jsnum \<Rightarrow> bool" where
  "jlt (Fin a) (Fin b) = (a < b)"
| "jlt NaN _ = False"
| "jlt _ NaN = False"
| "jlt _ NInf = False"
| "jlt NInf _ = True"
| "jlt PInf _ = False"
| "jlt _ PInf = True"

definition jmax :: "jsnum \<Rightarrow> jsnum \<Rightarrow> jsnum" where
  "jmax a b = (if a = NaN \<or> b = NaN then NaN else if jlt a b then b else a)"

definition jmin :: "jsnum \<Rightarrow> jsnum \<Rightarrow> jsnum" where
  "jmin a b = (if a = NaN \<or> b = NaN then NaN else if jlt b a then b else a)"

text \<open>\<open>a || b\<close> on numbers: NaN and zero are falsy.\<close>

definition jor :: "jsnum \<Rightarrow> jsnum \<Rightarrow> jsnum" where
  "jor a b = (if a = NaN \<or> a = Fin 0 then b else a)"

definition isFin :: "jsnum \<Rightarrow> bool" where
  "isFin a = (case a of Fin _ \<Rightarrow> True | _ \<Rightarrow> False)"


text \<open>
  The arithmetic operators of the source are written with the usual symbols. The classes
  instantiated here are the syntactic ones only: no algebraic law is assumed for
  \<open>jsnum\<close>.
\<close>

instantiation jsnum :: "{plus, minus, uminus, times, inverse, modulo, ord}"
begin

definition plus_jsnum :: "jsnum \<Rightarrow> jsnum \<Rightarrow> jsnum" where
  "plus_jsnum a b = jadd a b"

definition minus_jsnum :: "jsnum \<Rightarrow> jsnum \<Rightarrow> jsnum" where
  "minus_jsnum a b = jsub a b"

definition uminus_jsnum :: "jsnum \<Rightarrow> jsnum" where
  "uminus_jsnum a = jneg a"

definition times_jsnum :: "jsnum \<Rightarrow> jsnum \<Rightarrow> jsnum" where
  "times_jsnum a b = jmul a b"

definition divide_jsnum :: "jsnum \<Rightarrow> jsnum \<Rightarrow> jsnum" where
  "divide_jsnum a b = jdiv a b"

definition inverse_jsnum :: "jsnum \<Rightarrow> jsnum" where
  "inverse_jsnum a = jdiv (Fin 1) a"

definition modulo_jsnum :: "jsnum \<Rightarrow> jsnum \<Rightarrow> jsnum" where
  "modulo_jsnum a b = jmod a b"

definition less_jsnum :: "jsnum \<Rightarrow> jsnum \<Rightarrow> bool" where
  "less_jsnum a b = jlt a b"

definition less_eq_jsnum :: "jsnum \<Rightarrow> jsnum \<Rightarrow> bool" where
  "less_eq_jsnum a b = (jlt a b \<or> (a = b \<and> a \<noteq> NaN))"

instance ..

end

lemmas jsnum_ops =
  plus_jsnum_def minus_jsnum_def uminus_jsnum_def times_jsnum_def divide_jsnum_def
  modulo_jsnum_def less_jsnum_def jsub_def


section \<open>The \<open>Date\<close> object\<close>

text \<open>
  A \<open>Date\<close> holds a time value, the milliseconds since the epoch in UTC, or is invalid.
  The machine's time zone is a parameter \<open>tz\<close> of everything that reads local time: the
  offset of local time from UTC in minutes, positive east of Greenwich, taken as constant
  (no daylight saving transition).

  \<open>new Date(s)\<close> is modelled on strings of the form \<open>YYYY-MM-DDTHH:mm:ss\<close>, which
  ECMAScript reads as local time because they carry no offset. Any other string, and any
  field out of range, gives an invalid date, whose getters all return NaN.
\<close>

datatype jsdate = InvalidDate | TimeValue int

definition digitVal :: "char \<Rightarrow> int" where
  "digitVal c = int (of_char c) - 48"

definition isDigit :: "char \<Rightarrow> bool" where
  "isDigit c = (48 \<le> (of_char c :: nat) \<and> (of_char c :: nat) \<le> 57)"

definition parseDigits :: "string \<Rightarrow> int option" where
  "parseDigits s =
     (if s \<noteq> [] \<and> list_all isDigit s
      then Some (foldl (\<lambda>acc c. 10 * acc + digitVal c) 0 s) else None)"

definition isLeapYear :: "int \<Rightarrow> bool" where
  "isLeapYear y = (y mod 4 = 0 \<and> (y mod 100 \<noteq> 0 \<or> y mod 400 = 0))"

definition daysInMonth :: "int \<Rightarrow> int \<Rightarrow> int" where
  "daysInMonth y m =
     (if m = 2 then (if isLeapYear y then 29 else 28)
      else if m = 4 \<or> m = 6 \<or> m = 9 \<or> m = 11 then 30 else 31)"

text \<open>Days since 1970-01-01 of a date of the proleptic Gregorian calendar, and back.\<close>

definition daysFromCivil :: "int \<Rightarrow> int \<Rightarrow> int \<Rightarrow> int" where
  "daysFromCivil y m d =
     (let y' = (if m \<le> 2 then y - 1 else y);
          era = y' div 400;
          yoe = y' - era * 400;
          doy = (153 * (if 2 < m then m - 3 else m + 9) + 2) div 5 + d - 1;
          doe = yoe * 365 + yoe div 4 - yoe div 100 + doy
      in era * 146097 + doe - 719468)"

definition civilFromDays :: "int \<Rightarrow> int \<times> int \<times> int" where
  "civilFromDays n =
     (let z = n + 719468;
          era = z div 146097;
          doe = z - era * 146097;
          yoe = (doe - doe div 1460 + doe div 36524 - doe div 146096) div 365;
          doy = doe - (365 * yoe + yoe div 4 - yoe div 100);
          mp = (5 * doy + 2) div 153;
          d = doy - (153 * mp + 2) div 5 + 1;
          m = (if mp < 10 then mp + 3 else mp - 9);
          y = yoe + era * 400 + (if m \<le> 2 then 1 else 0)
      in (y, m, d))"

definition parseDateTime :: "string \<Rightarrow> (int \<times> int \<times> int \<times> int \<times> int \<times> int) option" where
  "parseDateTime s =
     (if length s = 19 \<and> s ! 4 = CHR ''-'' \<and> s ! 7 = CHR ''-'' \<and> s ! 10 = CHR ''T''
         \<and> s ! 13 = CHR '':'' \<and> s ! 16 = CHR '':''
      then
        (case (parseDigits (take 4 s), parseDigits (take 2 (drop 5 s)),
               parseDigits (take 2 (drop 8 s)), parseDigits (take 2 (drop 11 s)),
               parseDigits (take 2 (drop 14 s)), parseDigits (take 2 (drop 17 s))) of
           (Some y, Some m, Some d, Some h, Some mi, Some sec) \<Rightarrow>
             (if 1 \<le> m \<and> m \<le> 12 \<and> 1 \<le> d \<and> d \<le> daysInMonth y m
                 \<and> h \<le> 23 \<and> mi \<le> 59 \<and> sec \<le> 59
              then Some (y, m, d, h, mi, sec) else None)
         | _ \<Rightarrow> None)
      else None)"

definition newDate :: "int \<Rightarrow> string \<Rightarrow> jsdate" where
  "newDate tz s =
     (case parseDateTime s of
        None \<Rightarrow> InvalidDate
      | Some (y, m, d, h, mi, sec) \<Rightarrow>
          TimeValue ((daysFromCivil y m d * 86400 + h * 3600 + mi * 60 + sec) * 1000
                     - tz * 60000))"

definition localTime :: "int \<Rightarrow> int \<Rightarrow> int" where
  "localTime tz t = t + tz * 60000"

fun getHours :: "int \<Rightarrow> jsdate \<Rightarrow> jsnum" where
  "getHours tz InvalidDate = NaN"
| "getHours tz (TimeValue t) = Fin (of_int ((localTime tz t div 3600000) mod 24))"

fun getMinutes :: "int \<Rightarrow> jsdate \<Rightarrow> jsnum" where
  "getMinutes tz InvalidDate = NaN"
| "getMinutes tz (TimeValue t) = Fin (of_int ((localTime tz t div 60000) mod 60))"

fun getSeconds :: "int \<Rightarrow> jsdate \<Rightarrow> jsnum" where
  "getSeconds tz InvalidDate = NaN"
| "getSeconds tz (TimeValue t) = Fin (of_int ((localTime tz t div 1000) mod 60))"

fun getUTCHours :: "jsdate \<Rightarrow> jsnum" where
  "getUTCHours InvalidDate = NaN"
| "getUTCHours (TimeValue t) = Fin (of_int ((t div 3600000) mod 24))"

fun getUTCMinutes :: "jsdate \<Rightarrow> jsnum" where
  "getUTCMinutes InvalidDate = NaN"
| "getUTCMinutes (TimeValue t) = Fin (of_int ((t div 60000) mod 60))"

fun getUTCFullYear :: "jsdate \<Rightarrow> jsnum" where
  "getUTCFullYear InvalidDate = NaN"
| "getUTCFullYear (TimeValue t) = Fin (of_int (fst (civilFromDays (t div 86400000))))"

text \<open>\<open>getUTCMonth\<close> counts the months from zero.\<close>

fun getUTCMonth :: "jsdate \<Rightarrow> jsnum" where
  "getUTCMonth InvalidDate = NaN"
| "getUTCMonth (TimeValue t) = Fin (of_int (fst (snd (civilFromDays (t div 86400000))) - 1))"

fun getUTCDate :: "jsdate \<Rightarrow> jsnum" where
  "getUTCDate InvalidDate = NaN"
| "getUTCDate (TimeValue t) = Fin (of_int (snd (snd (civilFromDays (t div 86400000)))))"


section \<open>The simulator\<close>

subsection \<open>Data\<close>

datatype TrackingMode = Auto | Manual

record SolarState =
  latitude :: jsnum
  longitude :: jsnum
  utcOffset :: jsnum
  date :: string
  time :: string
  trackingMode :: TrackingMode
  manualPitch :: jsnum
  manualYaw :: jsnum
  panelWidth :: jsnum
  panelHeight :: jsnum
  panelElevation :: jsnum
  albedo :: jsnum

text \<open>
  The vector of the three.js library, with the three methods the simulator calls:
  \<open>length\<close> is the Euclidean norm, \<open>normalize\<close> divides by \<open>length() || 1\<close>,
  which it does by multiplying with the reciprocal, and \<open>dot\<close> is the scalar product.
\<close>

record Vector3 =
  vx :: jsnum
  vy :: jsnum
  vz :: jsnum

definition vlength :: "Vector3 \<Rightarrow> jsnum" where
  "vlength v = jsqrt (vx v * vx v + vy v * vy v + vz v * vz v)"

definition multiplyScalar :: "Vector3 \<Rightarrow> jsnum \<Rightarrow> Vector3" where
  "multiplyScalar v s = \<lparr>vx = vx v * s, vy = vy v * s, vz = vz v * s\<rparr>"

definition normalize :: "Vector3 \<Rightarrow> Vector3" where
  "normalize v = multiplyScalar v (Fin 1 / jor (vlength v) (Fin 1))"

definition dot :: "Vector3 \<Rightarrow> Vector3 \<Rightarrow> jsnum" where
  "dot v w = vx v * vx w + vy v * vy w + vz v * vz w"

record SunPosition =
  azimuth :: jsnum
  elevation :: jsnum
  vector :: Vector3

subsection \<open>Angles\<close>

definition degToRad :: "jsnum \<Rightarrow> jsnum" where
  "degToRad deg = (deg * Fin pi) / Fin 180"

definition radToDeg :: "jsnum \<Rightarrow> jsnum" where
  "radToDeg rad = (rad * Fin 180) / Fin pi"

definition normalizeAngle :: "jsnum \<Rightarrow> jsnum" where
  "normalizeAngle angle =
     (let normalized = angle mod Fin 360
      in if normalized < Fin 0 then normalized + Fin 360 else normalized)"

subsection \<open>\<open>calculateSunPosition\<close>\<close>

text \<open>
  Each local constant of \<open>calculateSunPosition\<close> is a function of the machine's time
  zone and of the state, named as in the source (\<open>A\<close>, \<open>Y\<close> and \<open>M\<close> carry the suffix
  \<open>_jd\<close>; the locals \<open>azimuth\<close> and \<open>elevation\<close> carry the suffix \<open>Var\<close>, the plain
  names being the fields of the result). \<open>utcOffset\<close>, \<open>timeZone\<close>, \<open>longitude\<close>
  and \<open>latitude\<close> are copies of fields of the state and are read from it directly.
\<close>

definition dateTime :: "int \<Rightarrow> SolarState \<Rightarrow> jsdate" where
  "dateTime tz st = newDate tz (date st @ ''T'' @ time st @ '':00'')"

definition totalMinutes :: "int \<Rightarrow> SolarState \<Rightarrow> jsnum" where
  "totalMinutes tz st =
     getHours tz (dateTime tz st) * Fin 60 + getMinutes tz (dateTime tz st)
       + getSeconds tz (dateTime tz st) / Fin 60"

definition year :: "int \<Rightarrow> SolarState \<Rightarrow> jsnum" where
  "year tz st = getUTCFullYear (dateTime tz st)"

definition month :: "int \<Rightarrow> SolarState \<Rightarrow> jsnum" where
  "month tz st = getUTCMonth (dateTime tz st) + Fin 1"

definition day :: "int \<Rightarrow> SolarState \<Rightarrow> jsnum" where
  "day tz st = getUTCDate (dateTime tz st)"

definition A_jd :: "int \<Rightarrow> SolarState \<Rightarrow> jsnum" where
  "A_jd tz st = jfloor ((Fin 14 - month tz st) / Fin 12)"

definition Y_jd :: "int \<Rightarrow> SolarState \<Rightarrow> jsnum" where
  "Y_jd tz st = year tz st + Fin 4800 - A_jd tz st"

definition M_jd :: "int \<Rightarrow> SolarState \<Rightarrow> jsnum" where
  "M_jd tz st = month tz st + Fin 12 * A_jd tz st - Fin 3"

definition julianDay :: "int \<Rightarrow> SolarState \<Rightarrow> jsnum" where
  "julianDay tz st =
     day tz st
       + jfloor ((Fin 153 * M_jd tz st + Fin 2) / Fin 5)
       + Fin 365 * Y_jd tz st
       + jfloor (Y_jd tz st / Fin 4)
       - jfloor (Y_jd tz st / Fin 100)
       + jfloor (Y_jd tz st / Fin 400)
       - Fin 32045"

definition julianDayWithTime :: "int \<Rightarrow> SolarState \<Rightarrow> jsnum" where
  "julianDayWithTime tz st =
     julianDay tz st
       + (getUTCHours (dateTime tz st) - utcOffset st
            + getUTCMinutes (dateTime tz st) / Fin 60) / Fin 24
       - Fin 0.5"

definition julianCentury :: "int \<Rightarrow> SolarState \<Rightarrow> jsnum" where
  "julianCentury tz st = (julianDayWithTime tz st - Fin 2451545) / Fin 36525"

definition geomMeanLongSun :: "int \<Rightarrow> SolarState \<Rightarrow> jsnum" where
  "geomMeanLongSun tz st =
     jor (normalizeAngle
            (Fin 280.46646
               + julianCentury tz st * (Fin 36000.76983 + Fin 0.0003032 * julianCentury tz st)))
         (Fin 0)"

definition geomMeanAnomSun :: "int \<Rightarrow> SolarState \<Rightarrow> jsnum" where
  "geomMeanAnomSun tz st =
     Fin 357.52911 + julianCentury tz st * (Fin 35999.05029 - Fin 0.0001537 * julianCentury tz st)"

definition eccentEarthOrbit :: "int \<Rightarrow> SolarState \<Rightarrow> jsnum" where
  "eccentEarthOrbit tz st =
     Fin 0.016708634
       - julianCentury tz st * (Fin 0.000042037 + Fin 0.0000001267 * julianCentury tz st)"

definition sunEqOfCenter :: "int \<Rightarrow> SolarState \<Rightarrow> jsnum" where
  "sunEqOfCenter tz st =
     jsin (degToRad (geomMeanAnomSun tz st))
         * (Fin 1.914602 - julianCentury tz st * (Fin 0.004817 + Fin 0.000014 * julianCentury tz st))
       + jsin (degToRad (Fin 2 * geomMeanAnomSun tz st))
           * (Fin 0.019993 - Fin 0.000101 * julianCentury tz st)
       + jsin (degToRad (Fin 3 * geomMeanAnomSun tz st)) * Fin 0.000289"

definition sunTrueLong :: "int \<Rightarrow> SolarState \<Rightarrow> jsnum" where
  "sunTrueLong tz st = geomMeanLongSun tz st + sunEqOfCenter tz st"

definition sunAppLong :: "int \<Rightarrow> SolarState \<Rightarrow> jsnum" where
  "sunAppLong tz st =
     sunTrueLong tz st
       - Fin 0.00569
       - Fin 0.00478 * jsin (degToRad (Fin 125.04 - Fin 1934.136 * julianCentury tz st))"

definition meanObliqEcliptic :: "int \<Rightarrow> SolarState \<Rightarrow> jsnum" where
  "meanObliqEcliptic tz st =
     Fin 23
       + (Fin 26
            + (Fin 21.448
                 - julianCentury tz st
                     * (Fin 46.815
                          + julianCentury tz st
                              * (Fin 0.00059 - julianCentury tz st * Fin 0.001813))))
           / Fin 60"

definition obliqCorr :: "int \<Rightarrow> SolarState \<Rightarrow> jsnum" where
  "obliqCorr tz st =
     meanObliqEcliptic tz st
       + Fin 0.00256 * jcos (degToRad (Fin 125.04 - Fin 1934.136 * julianCentury tz st))"

definition sunDeclination :: "int \<Rightarrow> SolarState \<Rightarrow> jsnum" where
  "sunDeclination tz st =
     radToDeg (jasin (jsin (degToRad (obliqCorr tz st)) * jsin (degToRad (sunAppLong tz st))))"

definition varY :: "int \<Rightarrow> SolarState \<Rightarrow> jsnum" where
  "varY tz st =
     jtan (degToRad (obliqCorr tz st / Fin 2)) * jtan (degToRad (obliqCorr tz st / Fin 2))"

definition eqOfTime :: "int \<Rightarrow> SolarState \<Rightarrow> jsnum" where
  "eqOfTime tz st =
     Fin 4
       * radToDeg
           (varY tz st * jsin (Fin 2 * degToRad (geomMeanLongSun tz st))
              - Fin 2 * eccentEarthOrbit tz st * jsin (degToRad (geomMeanAnomSun tz st))
              + Fin 4 * eccentEarthOrbit tz st * varY tz st
                  * jsin (degToRad (geomMeanAnomSun tz st))
                  * jcos (Fin 2 * degToRad (geomMeanLongSun tz st))
              - Fin 0.5 * varY tz st * varY tz st
                  * jsin (Fin 4 * degToRad (geomMeanLongSun tz st))
              - Fin 1.25 * eccentEarthOrbit tz st * eccentEarthOrbit tz st
                  * jsin (Fin 2 * degToRad (geomMeanAnomSun tz st)))"

text \<open>\<open>trueSolarTime\<close> is assigned twice; the first value carries the suffix \<open>0\<close>.\<close>

definition trueSolarTime0 :: "int \<Rightarrow> SolarState \<Rightarrow> jsnum" where
  "trueSolarTime0 tz st =
     totalMinutes tz st + eqOfTime tz st + Fin 4 * longitude st - Fin 60 * utcOffset st"

definition wrapMinutes :: "jsnum \<Rightarrow> jsnum" where
  "wrapMinutes t = ((t mod Fin 1440) + Fin 1440) mod Fin 1440"

definition trueSolarTime :: "int \<Rightarrow> SolarState \<Rightarrow> jsnum" where
  "trueSolarTime tz st = wrapMinutes (trueSolarTime0 tz st)"

text \<open>
  The hour angle before and after the corrective statement
  \<open>if (hourAngle < -180) hourAngle += 360\<close>.
\<close>

definition hourAngle0 :: "jsnum \<Rightarrow> jsnum" where
  "hourAngle0 tst = tst / Fin 4 - Fin 180"

definition hourAngleOf :: "jsnum \<Rightarrow> jsnum" where
  "hourAngleOf tst =
     (if hourAngle0 tst < Fin (- 180) then hourAngle0 tst + Fin 360 else hourAngle0 tst)"

definition hourAngle :: "int \<Rightarrow> SolarState \<Rightarrow> jsnum" where
  "hourAngle tz st = hourAngleOf (trueSolarTime tz st)"

definition haRad :: "int \<Rightarrow> SolarState \<Rightarrow> jsnum" where
  "haRad tz st = degToRad (hourAngle tz st)"

definition latRad :: "SolarState \<Rightarrow> jsnum" where
  "latRad st = degToRad (latitude st)"

definition declRad :: "int \<Rightarrow> SolarState \<Rightarrow> jsnum" where
  "declRad tz st = degToRad (sunDeclination tz st)"

definition cosZenith :: "int \<Rightarrow> SolarState \<Rightarrow> jsnum" where
  "cosZenith tz st =
     jsin (latRad st) * jsin (declRad tz st)
       + jcos (latRad st) * jcos (declRad tz st) * jcos (haRad tz st)"

text \<open>
  The zenith angle as the source computes it from \<open>cosZenith\<close>:
  \<open>Math.min(Math.acos(Math.max(cosZenith, -1)), Math.PI)\<close>.
\<close>

definition zenithOf :: "jsnum \<Rightarrow> jsnum" where
  "zenithOf c = jmin (jacos (jmax c (Fin (- 1)))) (Fin pi)"

definition zenith :: "int \<Rightarrow> SolarState \<Rightarrow> jsnum" where
  "zenith tz st = zenithOf (cosZenith tz st)"

definition elevationVar :: "int \<Rightarrow> SolarState \<Rightarrow> jsnum" where
  "elevationVar tz st = Fin 90 - radToDeg (zenith tz st)"

definition azDenominator :: "int \<Rightarrow> SolarState \<Rightarrow> jsnum" where
  "azDenominator tz st = jcos (latRad st) * jsin (zenith tz st)"

definition azRad0 :: "int \<Rightarrow> SolarState \<Rightarrow> jsnum" where
  "azRad0 tz st =
     jacos (jmin (jmax ((jsin (latRad st) * jcos (zenith tz st) - jsin (declRad tz st))
                          / azDenominator tz st)
                       (Fin (- 1)))
                 (Fin 1))"

definition azRad :: "int \<Rightarrow> SolarState \<Rightarrow> jsnum" where
  "azRad tz st =
     (if jsin (haRad tz st) > Fin 0 then Fin 2 * Fin pi - azRad0 tz st else azRad0 tz st)"

definition azimuthVar :: "int \<Rightarrow> SolarState \<Rightarrow> jsnum" where
  "azimuthVar tz st =
     (if jabs (azDenominator tz st) > Fin 0.001
      then normalizeAngle (radToDeg (azRad tz st))
      else Fin 0)"

definition elevationClamped :: "int \<Rightarrow> SolarState \<Rightarrow> jsnum" where
  "elevationClamped tz st = jmax (elevationVar tz st) (Fin (- 5))"

definition elevationRad :: "int \<Rightarrow> SolarState \<Rightarrow> jsnum" where
  "elevationRad tz st = degToRad (elevationClamped tz st)"

definition azimuthRad :: "int \<Rightarrow> SolarState \<Rightarrow> jsnum" where
  "azimuthRad tz st = degToRad (azimuthVar tz st)"

definition sunVector :: "int \<Rightarrow> SolarState \<Rightarrow> Vector3" where
  "sunVector tz st =
     normalize
       \<lparr>vx = jsin (azimuthRad tz st) * jcos (elevationRad tz st),
        vy = jsin (elevationRad tz st),
        vz = jcos (azimuthRad tz st) * jcos (elevationRad tz st)\<rparr>"

definition calculateSunPosition :: "int \<Rightarrow> SolarState \<Rightarrow> SunPosition" where
  "calculateSunPosition tz st =
     \<lparr>azimuth = azimuthVar tz st,
      elevation = elevationClamped tz st,
      vector = sunVector tz st\<rparr>"

subsection \<open>\<open>getPanelNormal\<close>, \<open>PanelAssembly\<close> and \<open>Metrics\<close>\<close>

record PanelNormal =
  normalVector :: Vector3
  pitch :: jsnum
  yaw :: jsnum

definition getPanelNormal :: "SolarState \<Rightarrow> SunPosition \<Rightarrow> PanelNormal" where
  "getPanelNormal st sun =
     (let pitch = (if trackingMode st = Auto then elevation sun else manualPitch st);
          yaw = (if trackingMode st = Auto then azimuth sun else manualYaw st);
          pitchRad = degToRad pitch;
          yawRad = degToRad yaw;
          vector = normalize
                     \<lparr>vx = jsin yawRad * jcos pitchRad,
                      vy = jsin pitchRad,
                      vz = jcos yawRad * jcos pitchRad\<rparr>
      in \<lparr>normalVector = vector, pitch = pitch, yaw = yaw\<rparr>)"

text \<open>
  \<open>PanelAssembly\<close> renders the panel. Of its body the model keeps the three constants
  computed from the \<open>pitch\<close> and \<open>yaw\<close> properties: \<open>yawRad\<close> and \<open>pitchRad\<close>
  are the angles of the two rotations of the rendered panel.
\<close>

record PanelAngles =
  yawRotation :: jsnum
  pitchClamped :: jsnum
  pitchRotation :: jsnum

definition PanelAssembly :: "jsnum \<Rightarrow> jsnum \<Rightarrow> PanelAngles" where
  "PanelAssembly pitchProp yawProp =
     (let yawRad = degToRad (normalizeAngle yawProp);
          pitchClamped = jmin (jmax pitchProp (Fin 0)) (Fin 90);
          pitchRad = degToRad pitchClamped
      in \<lparr>yawRotation = yawRad, pitchClamped = pitchClamped, pitchRotation = pitchRad\<rparr>)"

text \<open>\<open>Metrics\<close> displays two numbers computed from the sun and the panel normal.\<close>

record MetricsValues =
  angleDeg :: jsnum
  effectiveIrradiance :: jsnum

definition metricsAngle :: "SunPosition \<Rightarrow> Vector3 \<Rightarrow> jsnum" where
  "metricsAngle sun panelNormal =
     jacos (jmin (jmax (dot (vector sun) panelNormal) (Fin (- 1))) (Fin 1))"

definition Metrics :: "SunPosition \<Rightarrow> Vector3 \<Rightarrow> MetricsValues" where
  "Metrics sun panelNormal =
     \<lparr>angleDeg = radToDeg (metricsAngle sun panelNormal),
      effectiveIrradiance = jmax (Fin 0) (jcos (metricsAngle sun panelNormal))\<rparr>"

subsection \<open>Well-formed inputs and unit vectors\<close>

text \<open>
  A state is well formed when latitude, longitude and UTC offset are finite numbers and
  the date and time strings make a valid \<open>Date\<close>. No range is imposed on the three
  numbers.
\<close>

definition wellFormed :: "int \<Rightarrow> SolarState \<Rightarrow> bool" where
  "wellFormed tz st =
     (isFin (latitude st) \<and> isFin (longitude st) \<and> isFin (utcOffset st)
      \<and> dateTime tz st \<noteq> InvalidDate)"

definition isUnit :: "Vector3 \<Rightarrow> bool" where
  "isUnit v =
     (case (vx v, vy v, vz v) of
        (Fin a, Fin b, Fin c) \<Rightarrow> a * a + b * b + c * c = 1
      | _ \<Rightarrow> False)"

definition negate :: "Vector3 \<Rightarrow> Vector3" where
  "negate v = \<lparr>vx = - vx v, vy = - vy v, vz = - vz v\<rparr>"

subsection \<open>Example inputs\<close>

text \<open>Paris at the summer solstice: the fixture of the specification.\<close>

definition parisSolstice :: SolarState where
  "parisSolstice =
     \<lparr>latitude = Fin 48.8566, longitude = Fin 2.3522, utcOffset = Fin 1,
      date = ''2024-06-21'', time = ''13:00'', trackingMode = Auto,
      manualPitch = Fin 30, manualYaw = Fin 180, panelWidth = Fin 2,
      panelHeight = Fin 1.2, panelElevation = Fin 1.2, albedo = Fin 0.45\<rparr>"

text \<open>Tokyo, 13:00 local time, UTC offset nine hours.\<close>

definition tokyoAfternoon :: SolarState where
  "tokyoAfternoon =
     \<lparr>latitude = Fin 35.6762, longitude = Fin 139.6503, utcOffset = Fin 9,
      date = ''2024-06-21'', time = ''13:00'', trackingMode = Auto,
      manualPitch = Fin 30, manualYaw = Fin 180, panelWidth = Fin 2,
      panelHeight = Fin 1.2, panelElevation = Fin 1.2, albedo = Fin 0.45\<rparr>"

text \<open>The date field cleared by the user.\<close>

definition emptyDate :: SolarState where
  "emptyDate = parisSolstice\<lparr>date := []\<rparr>"

text \<open>The north pole.\<close>

definition northPole :: SolarState where
  "northPole = parisSolstice\<lparr>latitude := Fin 90, longitude := Fin 0, utcOffset := Fin 0\<rparr>"

text \<open>Manual mode with both manual angles outside their ranges.\<close>

definition manualOutOfRange :: SolarState where
  "manualOutOfRange =
     parisSolstice\<lparr>trackingMode := Manual, manualPitch := Fin 120, manualYaw := Fin 360\<rparr>"

text \<open>Manual mode with the initial manual angles.\<close>

definition manualInRange :: SolarState where
  "manualInRange = parisSolstice\<lparr>trackingMode := Manual\<rparr>"

text \<open>A sun below the horizon, at the floor of the elevation, in the north.\<close>

definition nightSun :: SunPosition where
  "nightSun =
     \<lparr>azimuth = Fin 0, elevation = Fin (- 5),
      vector = \<lparr>vx = Fin 0, vy = Fin (sin (- 5 * pi / 180)), vz = Fin (cos (- 5 * pi / 180))\<rparr>\<rparr>"

text \<open>A sun at the zenith.\<close>

definition zenithSun :: SunPosition where
  "zenithSun =
     \<lparr>azimuth = Fin 0, elevation = Fin 90, vector = \<lparr>vx = Fin 0, vy = Fin 1, vz = Fin 0\<rparr>\<rparr>"


section \<open>Elementary facts about numbers\<close>

lemma jadd_NaN [simp]: "jadd NaN x = NaN" "jadd x NaN = NaN"
  by (cases x; simp)+

lemma jmul_NaN [simp]: "jmul NaN x = NaN" "jmul x NaN = NaN"
  by (cases x; simp)+

lemma jdiv_NaN [simp]: "jdiv NaN x = NaN" "jdiv x NaN = NaN"
  by (cases x; simp)+

lemma jmod_NaN [simp]: "jmod NaN x = NaN" "jmod x NaN = NaN"
  by (cases x; simp)+

lemma jlt_NaN [simp]: "jlt NaN x = False" "jlt x NaN = False"
  by (cases x; simp)+

lemma jmax_NaN [simp]: "jmax NaN x = NaN" "jmax x NaN = NaN"
  by (simp_all add: jmax_def)

lemma jmin_NaN [simp]: "jmin NaN x = NaN" "jmin x NaN = NaN"
  by (simp_all add: jmin_def)

lemma jmax_Fin [simp]: "jmax (Fin a) (Fin b) = Fin (max a b)"
  by (simp add: jmax_def max_def)

lemma jmin_Fin [simp]: "jmin (Fin a) (Fin b) = Fin (min a b)"
  by (simp add: jmin_def min_def)

lemma isFin_Fin [simp]: "isFin (Fin a)" "\<not> isFin NaN" "\<not> isFin PInf" "\<not> isFin NInf"
  by (simp_all add: isFin_def)

lemma isFin_iff: "isFin x \<longleftrightarrow> (\<exists>r. x = Fin r)"
  by (cases x) simp_all

lemma isFin_arith:
  "isFin a \<Longrightarrow> isFin b \<Longrightarrow> isFin (jadd a b)"
  "isFin a \<Longrightarrow> isFin (jneg a)"
  "isFin a \<Longrightarrow> isFin b \<Longrightarrow> isFin (jmul a b)"
  "isFin a \<Longrightarrow> c \<noteq> 0 \<Longrightarrow> isFin (jdiv a (Fin c))"
  "isFin a \<Longrightarrow> c \<noteq> 0 \<Longrightarrow> isFin (jmod a (Fin c))"
  "isFin a \<Longrightarrow> isFin (jfloor a)"
  "isFin a \<Longrightarrow> isFin (jsin a)"
  "isFin a \<Longrightarrow> isFin (jcos a)"
  "isFin a \<Longrightarrow> isFin (jtan a)"
  "isFin a \<Longrightarrow> isFin (jabs a)"
  "isFin a \<Longrightarrow> isFin b \<Longrightarrow> isFin (jmax a b)"
  "isFin a \<Longrightarrow> isFin b \<Longrightarrow> isFin (jmin a b)"
  "isFin a \<Longrightarrow> isFin b \<Longrightarrow> isFin (jor a b)"
  by (auto simp: isFin_iff jor_def)

lemma degToRad_Fin [simp]: "degToRad (Fin a) = Fin (a * pi / 180)"
  by (simp add: degToRad_def jsnum_ops)

lemma radToDeg_Fin [simp]: "radToDeg (Fin a) = Fin (a * 180 / pi)"
  by (simp add: radToDeg_def jsnum_ops)

lemma isFin_degToRad: "isFin a \<Longrightarrow> isFin (degToRad a)"
  by (cases a) simp_all

lemma isFin_radToDeg: "isFin a \<Longrightarrow> isFin (radToDeg a)"
  by (cases a) simp_all

lemma truncMod_floorMod:
  fixes r b :: real
  assumes "0 < b"
  shows "(let m = r - b * of_int (truncReal (r / b)) in if m < 0 then m + b else m)
         = r - b * of_int \<lfloor>r / b\<rfloor>"
proof (cases "0 \<le> r")
  case True
  then have q: "0 \<le> r / b" using assms by simp
  have "b * of_int \<lfloor>r / b\<rfloor> \<le> r"
    using assms floor_divide_lower[of b r] by (simp add: mult.commute)
  then show ?thesis using q by (simp add: truncReal_def Let_def)
next
  case False
  then have q: "r / b < 0" using assms by (simp add: divide_neg_pos)
  show ?thesis
  proof (cases "r / b \<in> \<int>")
    case True
    then obtain n :: int where n: "r / b = of_int n"
      by (auto simp: Ints_def)
    then have "r = b * of_int n" using assms by (simp add: field_simps)
    then show ?thesis using q n assms by (simp add: truncReal_def Let_def)
  next
    case False
    then have "r / b \<noteq> of_int \<lfloor>r / b\<rfloor>"
      by (metis Ints_of_int)
    then have c: "\<lceil>r / b\<rceil> = \<lfloor>r / b\<rfloor> + 1"
      by (simp add: ceiling_altdef)
    have "r < b * (of_int \<lfloor>r / b\<rfloor> + 1)"
      using assms floor_divide_upper[of b r] by (simp add: mult.commute)
    then show ?thesis using q c by (simp add: truncReal_def Let_def algebra_simps)
  qed
qed

lemma normalizeAngle_Fin: "normalizeAngle (Fin r) = Fin (r - 360 * of_int \<lfloor>r / 360\<rfloor>)"
  using truncMod_floorMod[of 360 r]
  by (simp add: normalizeAngle_def jsnum_ops Let_def split: if_splits)

lemma floorMod_range:
  fixes r b :: real
  assumes "0 < b"
  shows "0 \<le> r - b * of_int \<lfloor>r / b\<rfloor>" "r - b * of_int \<lfloor>r / b\<rfloor> < b"
proof -
  show "0 \<le> r - b * of_int \<lfloor>r / b\<rfloor>"
    using assms floor_divide_lower[of b r] by (simp add: mult.commute)
  show "r - b * of_int \<lfloor>r / b\<rfloor> < b"
    using assms floor_divide_upper[of b r] by (simp add: algebra_simps)
qed

lemma degToRad_NaN [simp]: "degToRad NaN = NaN"
  by (simp add: degToRad_def jsnum_ops)

lemma radToDeg_NaN [simp]: "radToDeg NaN = NaN"
  by (simp add: radToDeg_def jsnum_ops)

section \<open>Facts about the stages of \<open>calculateSunPosition\<close>\<close>

subsection \<open>Trigonometric bounds\<close>

lemma cosZenith_bound:
  fixes a b t :: real
  assumes "\<bar>t\<bar> \<le> 1"
  shows "\<bar>sin a * sin b + cos a * cos b * t\<bar> \<le> 1"
proof -
  define u where "u = cos (a - b)"
  define v where "v = cos (a + b)"
  have ub: "- 1 \<le> u" "u \<le> 1" and vb: "- 1 \<le> v" "v \<le> 1"
    by (simp_all add: u_def v_def)
  have tp: "0 \<le> 1 + t" and tm: "0 \<le> 1 - t"
    using assms by auto
  have e: "sin a * sin b + cos a * cos b * t = (u * (1 + t) - v * (1 - t)) / 2"
    by (simp add: u_def v_def cos_diff cos_add algebra_simps)
  have "u * (1 + t) \<le> 1 + t" "- (1 + t) \<le> u * (1 + t)"
    using mult_right_mono[of u 1 "1 + t"] mult_right_mono[of "- 1" u "1 + t"] ub tp
    by simp_all
  moreover have "v * (1 - t) \<le> 1 - t" "- (1 - t) \<le> v * (1 - t)"
    using mult_right_mono[of v 1 "1 - t"] mult_right_mono[of "- 1" v "1 - t"] vb tm
    by simp_all
  ultimately show ?thesis
    unfolding e by (simp add: abs_le_iff)
qed

lemma sin_sin_bound: "- 1 \<le> sin (a::real) * sin b" "sin (a::real) * sin b \<le> 1"
proof -
  have "\<bar>sin a * sin b\<bar> \<le> 1 * 1"
    unfolding abs_mult by (intro mult_mono) simp_all
  then show "- 1 \<le> sin a * sin b" "sin a * sin b \<le> 1"
    by (simp_all add: abs_le_iff)
qed

lemma isFin_asin_sin_sin: "isFin a \<Longrightarrow> isFin b \<Longrightarrow> isFin (jasin (jmul (jsin a) (jsin b)))"
  by (auto simp: isFin_iff sin_sin_bound)

lemma isFin_normalizeAngle: "isFin a \<Longrightarrow> isFin (normalizeAngle a)"
  by (auto simp: isFin_iff normalizeAngle_Fin)

subsection \<open>Well-formed input keeps every stage finite\<close>

lemma valid_date: "wellFormed tz st \<Longrightarrow> \<exists>t. dateTime tz st = TimeValue t"
  by (cases "dateTime tz st") (simp_all add: wellFormed_def)

lemma isFin_getters:
  assumes "wellFormed tz st"
  shows "isFin (getHours tz (dateTime tz st))" "isFin (getMinutes tz (dateTime tz st))"
    "isFin (getSeconds tz (dateTime tz st))" "isFin (getUTCHours (dateTime tz st))"
    "isFin (getUTCMinutes (dateTime tz st))" "isFin (getUTCFullYear (dateTime tz st))"
    "isFin (getUTCMonth (dateTime tz st))" "isFin (getUTCDate (dateTime tz st))"
  using valid_date[OF assms] by auto

lemmas fin_rules = isFin_arith isFin_degToRad isFin_radToDeg isFin_normalizeAngle
  isFin_asin_sin_sin isFin_getters

lemma fin_totalMinutes: "wellFormed tz st \<Longrightarrow> isFin (totalMinutes tz st)"
  by (simp add: totalMinutes_def jsnum_ops fin_rules)

lemma fin_julianDay: "wellFormed tz st \<Longrightarrow> isFin (julianDay tz st)"
  by (simp add: julianDay_def Y_jd_def M_jd_def A_jd_def year_def month_def day_def
      jsnum_ops fin_rules)

lemma fin_julianCentury: "wellFormed tz st \<Longrightarrow> isFin (julianCentury tz st)"
  by (simp add: julianCentury_def julianDayWithTime_def fin_julianDay jsnum_ops fin_rules
      wellFormed_def)

lemma fin_geomMeanLongSun: "wellFormed tz st \<Longrightarrow> isFin (geomMeanLongSun tz st)"
  by (simp add: geomMeanLongSun_def fin_julianCentury jsnum_ops fin_rules)

lemma fin_geomMeanAnomSun: "wellFormed tz st \<Longrightarrow> isFin (geomMeanAnomSun tz st)"
  by (simp add: geomMeanAnomSun_def fin_julianCentury jsnum_ops fin_rules)

lemma fin_eccentEarthOrbit: "wellFormed tz st \<Longrightarrow> isFin (eccentEarthOrbit tz st)"
  by (simp add: eccentEarthOrbit_def fin_julianCentury jsnum_ops fin_rules)

lemma fin_sunEqOfCenter: "wellFormed tz st \<Longrightarrow> isFin (sunEqOfCenter tz st)"
  by (simp add: sunEqOfCenter_def fin_julianCentury fin_geomMeanAnomSun jsnum_ops fin_rules)

lemma fin_sunAppLong: "wellFormed tz st \<Longrightarrow> isFin (sunAppLong tz st)"
  by (simp add: sunAppLong_def sunTrueLong_def fin_julianCentury fin_geomMeanLongSun
      fin_sunEqOfCenter jsnum_ops fin_rules)

lemma fin_obliqCorr: "wellFormed tz st \<Longrightarrow> isFin (obliqCorr tz st)"
  by (simp add: obliqCorr_def meanObliqEcliptic_def fin_julianCentury jsnum_ops fin_rules)

lemma fin_sunDeclination: "wellFormed tz st \<Longrightarrow> isFin (sunDeclination tz st)"
  by (simp add: sunDeclination_def fin_obliqCorr fin_sunAppLong jsnum_ops fin_rules)

lemma fin_varY: "wellFormed tz st \<Longrightarrow> isFin (varY tz st)"
  by (simp add: varY_def fin_obliqCorr jsnum_ops fin_rules)

lemma fin_eqOfTime: "wellFormed tz st \<Longrightarrow> isFin (eqOfTime tz st)"
  by (simp add: eqOfTime_def fin_varY fin_geomMeanLongSun fin_geomMeanAnomSun
      fin_eccentEarthOrbit jsnum_ops fin_rules)

lemma fin_trueSolarTime0: "wellFormed tz st \<Longrightarrow> isFin (trueSolarTime0 tz st)"
  by (simp add: trueSolarTime0_def fin_totalMinutes fin_eqOfTime jsnum_ops fin_rules
      wellFormed_def)


subsection \<open>True solar time and hour angle\<close>

lemma wrapMinutes_Fin:
  "\<exists>t. wrapMinutes (Fin r) = Fin t \<and> 0 \<le> t \<and> t < 1440"
proof -
  define m where "m = r - 1440 * of_int (truncReal (r / 1440))"
  have pos: "(0::real) < 1440" by simp
  have "(if m < 0 then m + 1440 else m) = r - 1440 * of_int \<lfloor>r / 1440\<rfloor>"
    unfolding m_def by (rule truncMod_floorMod[OF pos, of r, unfolded Let_def])
  moreover have "0 \<le> r - 1440 * of_int \<lfloor>r / 1440\<rfloor>"
    using floorMod_range(1)[of 1440 r] by simp
  ultimately have x: "0 \<le> m + 1440" by (simp split: if_splits)
  then have "truncReal ((m + 1440) / 1440) = \<lfloor>(m + 1440) / 1440\<rfloor>"
    by (simp add: truncReal_def)
  then have "wrapMinutes (Fin r) = Fin ((m + 1440) - 1440 * of_int \<lfloor>(m + 1440) / 1440\<rfloor>)"
    by (simp add: wrapMinutes_def jsnum_ops m_def)
  then show ?thesis
    using floorMod_range[of 1440 "m + 1440"] by simp
qed

lemma hourAngle0_wrap: "\<not> (hourAngle0 (wrapMinutes t) < Fin (- 180))"
proof (cases t)
  case (Fin r)
  then obtain w where "wrapMinutes t = Fin w" "0 \<le> w" "w < 1440"
    using wrapMinutes_Fin[of r] by auto
  then show ?thesis by (simp add: hourAngle0_def jsnum_ops)
qed (simp_all add: wrapMinutes_def hourAngle0_def jsnum_ops)

lemma hourAngle_eq: "hourAngle tz st = hourAngle0 (trueSolarTime tz st)"
  using hourAngle0_wrap[of "trueSolarTime0 tz st"]
  by (simp add: hourAngle_def hourAngleOf_def trueSolarTime_def)

lemma hourAngle_range:
  assumes "trueSolarTime0 tz st = Fin r"
  shows "\<exists>t h. trueSolarTime tz st = Fin t \<and> 0 \<le> t \<and> t < 1440
           \<and> hourAngle tz st = Fin h \<and> - 180 \<le> h \<and> h < 180"
proof -
  obtain w where w: "wrapMinutes (Fin r) = Fin w" "0 \<le> w" "w < 1440"
    using wrapMinutes_Fin[of r] by auto
  then have "trueSolarTime tz st = Fin w"
    by (simp add: trueSolarTime_def assms)
  moreover from this have "hourAngle tz st = Fin (w / 4 - 180)"
    by (simp add: hourAngle_eq hourAngle0_def jsnum_ops)
  ultimately show ?thesis using w by auto
qed

lemma fin_haRad: "wellFormed tz st \<Longrightarrow> isFin (haRad tz st)"
proof -
  assume "wellFormed tz st"
  then obtain r where "trueSolarTime0 tz st = Fin r"
    using fin_trueSolarTime0 by (auto simp: isFin_iff)
  from hourAngle_range[OF this] obtain h where "hourAngle tz st = Fin h"
    by auto
  then show ?thesis
    by (simp add: haRad_def)
qed

subsection \<open>Zenith, elevation and azimuth\<close>

lemma cosZenith_Fin:
  assumes "wellFormed tz st"
  shows "\<exists>c. cosZenith tz st = Fin c \<and> - 1 \<le> c \<and> c \<le> 1"
proof -
  have "isFin (latRad st)" "isFin (declRad tz st)"
    using assms fin_sunDeclination[OF assms]
    by (simp_all add: latRad_def declRad_def wellFormed_def isFin_degToRad)
  then obtain l d where l: "latRad st = Fin l" and d: "declRad tz st = Fin d"
    by (auto simp: isFin_iff)
  obtain h where h: "haRad tz st = Fin h"
    using fin_haRad[OF assms] by (auto simp: isFin_iff)
  have "cosZenith tz st = Fin (sin l * sin d + cos l * cos d * cos h)"
    by (simp add: cosZenith_def l d h jsnum_ops)
  moreover have "\<bar>sin l * sin d + cos l * cos d * cos h\<bar> \<le> 1"
    by (rule cosZenith_bound) simp
  ultimately show ?thesis by (auto simp: abs_le_iff)
qed

lemma zenithOf_Fin:
  assumes "- 1 \<le> c" "c \<le> 1"
  shows "zenithOf (Fin c) = Fin (arccos c)"
  using assms arccos_ubound[of c] by (simp add: zenithOf_def)

lemma elevation_range:
  assumes "wellFormed tz st"
  shows "\<exists>e. elevationClamped tz st = Fin e \<and> - 5 \<le> e \<and> e \<le> 90"
proof -
  obtain c where c: "cosZenith tz st = Fin c" "- 1 \<le> c" "c \<le> 1"
    using cosZenith_Fin[OF assms] by auto
  have z: "zenith tz st = Fin (arccos c)"
    by (simp add: zenith_def c zenithOf_Fin)
  have "0 \<le> arccos c * 180 / pi"
    using arccos_lbound[of c] c by simp
  then have "elevationClamped tz st = Fin (max (90 - arccos c * 180 / pi) (- 5))"
    "max (90 - arccos c * 180 / pi) (- 5) \<le> 90"
    by (simp_all add: elevationClamped_def elevationVar_def z jsnum_ops)
  then show ?thesis by auto
qed

lemma jsin_cases: "jsin x = NaN \<or> (\<exists>r. x = Fin r)"
  by (cases x) simp_all

lemma jcos_cases: "jcos x = NaN \<or> (\<exists>r. x = Fin r)"
  by (cases x) simp_all

lemma zenithOf_not_NaN: "zenithOf c \<noteq> NaN \<Longrightarrow> c \<noteq> NaN"
  by (auto simp: zenithOf_def)

lemma jadd_not_NaN: "jadd a b \<noteq> NaN \<Longrightarrow> a \<noteq> NaN \<and> b \<noteq> NaN"
  by auto

lemma jmul_not_NaN: "jmul a b \<noteq> NaN \<Longrightarrow> a \<noteq> NaN \<and> b \<noteq> NaN"
  by auto

lemma azimuthVar_guarded:
  assumes g: "jabs (azDenominator tz st) > Fin 0.001"
  shows "\<exists>a. azimuthVar tz st = Fin a \<and> 0 \<le> a \<and> a < 360"
proof -
  have nn: "azDenominator tz st \<noteq> NaN"
    using g by (auto simp: jsnum_ops)
  then have "jcos (latRad st) \<noteq> NaN" "jsin (zenith tz st) \<noteq> NaN"
    by (auto simp: azDenominator_def jsnum_ops)
  then obtain l z where l: "latRad st = Fin l" and z: "zenith tz st = Fin z"
    using jcos_cases[of "latRad st"] jsin_cases[of "zenith tz st"] by auto
  have "cosZenith tz st \<noteq> NaN"
    using z zenithOf_not_NaN[of "cosZenith tz st"] by (simp add: zenith_def)
  then have "jsin (declRad tz st) \<noteq> NaN"
    by (auto simp: cosZenith_def jsnum_ops)
  then obtain d where d: "declRad tz st = Fin d"
    using jsin_cases[of "declRad tz st"] by auto
  have den: "azDenominator tz st = Fin (cos l * sin z)"
    by (simp add: azDenominator_def l z jsnum_ops)
  then have ne: "cos l * sin z \<noteq> 0"
    using g by (auto simp: jsnum_ops)
  define q where "q = min (max ((sin l * cos z - sin d) / (cos l * sin z)) (- 1)) 1"
  have qb: "- 1 \<le> q" "q \<le> 1" by (simp_all add: q_def)
  have a0: "azRad0 tz st = Fin (arccos q)"
    using ne qb by (simp add: azRad0_def l z d den jsnum_ops q_def)
  have ab: "0 \<le> arccos q" "arccos q \<le> pi"
    using qb by (simp_all add: arccos_lbound arccos_ubound)
  obtain r where r: "azRad tz st = Fin r"
    by (cases "jsin (haRad tz st) > Fin 0") (simp_all add: azRad_def a0 jsnum_ops)
  have "azimuthVar tz st = Fin (r * 180 / pi - 360 * of_int \<lfloor>r * 180 / pi / 360\<rfloor>)"
    using g by (simp add: azimuthVar_def r normalizeAngle_Fin)
  then show ?thesis
    using floorMod_range[of 360 "r * 180 / pi"] by simp
qed

lemma azimuthVar_range: "\<exists>a. azimuthVar tz st = Fin a \<and> 0 \<le> a \<and> a < 360"
proof (cases "jabs (azDenominator tz st) > Fin 0.001")
  case True
  then show ?thesis by (rule azimuthVar_guarded)
next
  case False
  then show ?thesis by (simp add: azimuthVar_def)
qed

section \<open>The claims\<close>

subsection \<open>The example inputs are well formed\<close>

lemma parisSolstice_date: "dateTime 0 parisSolstice = TimeValue 1718974800000"
  by (simp add: dateTime_def newDate_def parisSolstice_def parseDateTime_def parseDigits_def
      isDigit_def digitVal_def daysInMonth_def isLeapYear_def daysFromCivil_def)

lemma parisSolstice_wellFormed: "wellFormed 0 parisSolstice"
  by (simp add: wellFormed_def parisSolstice_date) (simp add: parisSolstice_def)

subsection \<open>Ranges of azimuth and elevation\<close>

text \<open>
  Claim C5. For every well-formed input the azimuth returned by \<open>calculateSunPosition\<close>
  is a number in \<open>[0, 360)\<close> and the returned elevation is a number in \<open>[-5, 90]\<close>.
  \<open>normalizeAngle\<close> is the floor-modulo by 360 on every finite angle, so it never leaves
  a negative angle.
\<close>

theorem sun_position_ranges:
  "(wellFormed tz st \<longrightarrow>
      (\<exists>a e. azimuth (calculateSunPosition tz st) = Fin a \<and> 0 \<le> a \<and> a < 360
         \<and> elevation (calculateSunPosition tz st) = Fin e \<and> - 5 \<le> e \<and> e \<le> 90))
   \<and> normalizeAngle (Fin r) = Fin (r - 360 * of_int \<lfloor>r / 360\<rfloor>)
   \<and> 0 \<le> r - 360 * of_int \<lfloor>r / 360\<rfloor> \<and> r - 360 * of_int \<lfloor>r / 360\<rfloor> < 360"
proof -
  have "\<exists>a e. azimuth (calculateSunPosition tz st) = Fin a \<and> 0 \<le> a \<and> a < 360
         \<and> elevation (calculateSunPosition tz st) = Fin e \<and> - 5 \<le> e \<and> e \<le> 90"
    if "wellFormed tz st"
    using azimuthVar_range[of tz st] elevation_range[OF that]
    by (auto simp: calculateSunPosition_def)
  then show ?thesis
    using floorMod_range[of 360 r] by (simp add: normalizeAngle_Fin)
qed

theorem sun_position_ranges_witness:
  "wellFormed 0 parisSolstice
   \<and> (\<exists>a e. azimuth (calculateSunPosition 0 parisSolstice) = Fin a \<and> 0 \<le> a \<and> a < 360
         \<and> elevation (calculateSunPosition 0 parisSolstice) = Fin e \<and> - 5 \<le> e \<and> e \<le> 90)
   \<and> normalizeAngle (Fin (- 30)) = Fin 330"
  using sun_position_ranges[of 0 parisSolstice "- 30"] parisSolstice_wellFormed
  by simp

subsection \<open>The direction vector\<close>

lemma normalize_unit:
  assumes "a * a + b * b + c * c = 1"
  shows "normalize \<lparr>vx = Fin a, vy = Fin b, vz = Fin c\<rparr> = \<lparr>vx = Fin a, vy = Fin b, vz = Fin c\<rparr>"
    and "vlength \<lparr>vx = Fin a, vy = Fin b, vz = Fin c\<rparr> = Fin 1"
  using assms by (simp_all add: normalize_def vlength_def multiplyScalar_def jor_def jsnum_ops)

lemma spherical_unit_aux:
  fixes sa ca se ce :: real
  assumes "sa * sa + ca * ca = 1" "se * se + ce * ce = 1"
  shows "(sa * ce) * (sa * ce) + se * se + (ca * ce) * (ca * ce) = 1"
proof -
  have "(sa * ce) * (sa * ce) + se * se + (ca * ce) * (ca * ce)
        = (sa * sa + ca * ca) * (ce * ce) + se * se"
    by (simp add: algebra_simps)
  then show ?thesis using assms by simp
qed

lemma spherical_unit:
  "(sin a * cos e) * (sin a * cos e) + sin e * sin e + (cos a * cos e) * (cos a * cos e) = (1::real)"
proof -
  have s: "sin x * sin x + cos x * cos x = (1::real)" for x
    using sin_cos_squared_add[of x] by (simp add: power2_eq_square)
  show ?thesis by (rule spherical_unit_aux) (rule s)+
qed

text \<open>
  Claim C6. For every well-formed input the vector returned by \<open>calculateSunPosition\<close>
  has the components \<open>x = sin(az) cos(el)\<close>, \<open>y = sin(el)\<close>, \<open>z = cos(az) cos(el)\<close>
  of the returned azimuth and the returned (clamped) elevation, taken in radians, and its
  length differs from one by at most \<open>10\<^sup>-\<^sup>6\<close>.
\<close>

theorem sun_vector_unit:
  "wellFormed tz st \<Longrightarrow>
     \<exists>a e len. azimuth (calculateSunPosition tz st) = Fin a
       \<and> elevation (calculateSunPosition tz st) = Fin e
       \<and> vector (calculateSunPosition tz st)
           = \<lparr>vx = Fin (sin (a * pi / 180) * cos (e * pi / 180)),
              vy = Fin (sin (e * pi / 180)),
              vz = Fin (cos (a * pi / 180) * cos (e * pi / 180))\<rparr>
       \<and> vlength (vector (calculateSunPosition tz st)) = Fin len
       \<and> \<bar>len - 1\<bar> \<le> 1 / 10 ^ 6"
proof -
  assume wf: "wellFormed tz st"
  obtain a where a: "azimuthVar tz st = Fin a"
    using azimuthVar_range[of tz st] by auto
  obtain e where e: "elevationClamped tz st = Fin e"
    using elevation_range[OF wf] by auto
  let ?v = "\<lparr>vx = Fin (sin (a * pi / 180) * cos (e * pi / 180)),
              vy = Fin (sin (e * pi / 180)),
              vz = Fin (cos (a * pi / 180) * cos (e * pi / 180))\<rparr>"
  have v: "sunVector tz st = ?v"
    by (simp add: sunVector_def azimuthRad_def elevationRad_def a e jsnum_ops
        normalize_unit(1)[OF spherical_unit, unfolded jsnum_ops])
  have "vlength ?v = Fin 1"
    by (rule normalize_unit(2)[OF spherical_unit])
  then show ?thesis
    by (simp add: calculateSunPosition_def a e v)
qed

theorem sun_vector_unit_witness:
  "wellFormed 0 parisSolstice
   \<and> (\<exists>a e len. azimuth (calculateSunPosition 0 parisSolstice) = Fin a
       \<and> elevation (calculateSunPosition 0 parisSolstice) = Fin e
       \<and> vector (calculateSunPosition 0 parisSolstice)
           = \<lparr>vx = Fin (sin (a * pi / 180) * cos (e * pi / 180)),
              vy = Fin (sin (e * pi / 180)),
              vz = Fin (cos (a * pi / 180) * cos (e * pi / 180))\<rparr>
       \<and> vlength (vector (calculateSunPosition 0 parisSolstice)) = Fin len
       \<and> \<bar>len - 1\<bar> \<le> 1 / 10 ^ 6)"
  using sun_vector_unit[OF parisSolstice_wellFormed] parisSolstice_wellFormed
  by simp

subsection \<open>The corrective branch of the hour angle\<close>

text \<open>
  Claim C10. The test \<open>hourAngle < -180\<close> is false for every input, so the statement
  that adds 360 never runs and the hour angle is \<open>trueSolarTime / 4 - 180\<close>. Whenever
  the true solar time before wrapping is a finite number, the wrapped true solar time lies
  in \<open>[0, 1440)\<close> and the hour angle in \<open>[-180, 180)\<close>.
\<close>

theorem hourAngle_correction_unreachable:
  "\<not> (hourAngle0 (trueSolarTime tz st) < Fin (- 180))
   \<and> hourAngle tz st = hourAngle0 (trueSolarTime tz st)
   \<and> (trueSolarTime0 tz st = Fin r \<longrightarrow>
        (\<exists>t h. trueSolarTime tz st = Fin t \<and> 0 \<le> t \<and> t < 1440
           \<and> hourAngle tz st = Fin h \<and> - 180 \<le> h \<and> h < 180))"
  using hourAngle0_wrap[of "trueSolarTime0 tz st"] hourAngle_eq[of tz st]
    hourAngle_range[of tz st r]
  by (simp add: trueSolarTime_def)

theorem hourAngle_correction_unreachable_witness:
  "\<exists>r. trueSolarTime0 0 parisSolstice = Fin r
     \<and> (\<exists>t h. trueSolarTime 0 parisSolstice = Fin t \<and> 0 \<le> t \<and> t < 1440
           \<and> hourAngle 0 parisSolstice = Fin h \<and> - 180 \<le> h \<and> h < 180)"
proof -
  obtain r where r: "trueSolarTime0 0 parisSolstice = Fin r"
    using fin_trueSolarTime0[OF parisSolstice_wellFormed] by (auto simp: isFin_iff)
  show ?thesis
    using hourAngle_correction_unreachable[of 0 parisSolstice r] r by blast
qed

end
